theory Spec2Isabelle
  imports Main "HOL-Library.Word"
begin

unbundle bit_operations_syntax

section \<open>Python values\<close>

text \<open>
  The runtime codec of \<^verbatim>\<open>pycanandmessage/model.py\<close> works on Python's unbounded integers,
  modelled as \<^typ>\<open>int\<close>: \<^verbatim>\<open>&\<close>, \<^verbatim>\<open>|\<close>, \<^verbatim>\<open><<\<close> and \<^verbatim>\<open>>>\<close> are \<open>AND\<close>, \<open>OR\<close>,
  \<^const>\<open>push_bit\<close> and \<^const>\<open>drop_bit\<close> (two's complement with infinitely many sign bits, the
  shift right rounding down, as in Python). Every exception the codec can raise is a value
  of \<open>error\<close>; the \<^verbatim>\<open>ValueError\<close>s are told apart by the message the source gives them.
\<close>

datatype reason =
    OutOfBounds         \<comment> \<open>\<^verbatim>\<open>"{name} out of bounds for {min} <= {value} <= {max}"\<close>\<close>
  | NonFinite           \<comment> \<open>\<^verbatim>\<open>"{name} is non-finite!"\<close>\<close>
  | LessThanMinimum     \<comment> \<open>\<^verbatim>\<open>"{name} {value} is less than minimum {min}"\<close>\<close>
  | GreaterThanMaximum  \<comment> \<open>\<^verbatim>\<open>"{name} {value} is greater than maximum {max}"\<close>\<close>
  | InvalidFloatSize    \<comment> \<open>\<^verbatim>\<open>"Float({width}) invalid size!!!"\<close>\<close>
  | BufferLen           \<comment> \<open>\<^verbatim>\<open>"{name} buffer len {len} > max len {max_len}"\<close>\<close>
  | NegativeShiftCount  \<comment> \<open>Python's own \<^verbatim>\<open>"negative shift count"\<close>\<close>
  | NaNToInteger        \<comment> \<open>Python's own \<^verbatim>\<open>"cannot convert float NaN to integer"\<close>\<close>
  | InvalidEnumDefault  \<comment> \<open>\<^verbatim>\<open>"invalid enum default value {name}::{default_value}."\<close>\<close>

datatype error =
    ValueError reason
  | TypeError
  | OverflowError
  | AttributeError
  | FileNotFoundError   \<comment> \<open>a spec file that cannot be opened\<close>
  | SerdeError          \<comment> \<open>a spec file that \<^verbatim>\<open>Serde.from_dict\<close> rejects\<close>
  | LiteralParsing
      \<comment> \<open>\<^verbatim>\<open>int(b)\<close> or \<^verbatim>\<open>float(b)\<close> of a byte string \<^verbatim>\<open>b\<close>: Python parses the text; the
          parser is outside this development\<close>

type_synonym byte = "8 word"

text \<open>A Python \<^verbatim>\<open>float\<close> is an IEEE-754 binary64 value, kept as its 64-bit pattern.\<close>

type_synonym pyfloat = "64 word"

datatype pyval =
    VNone
  | VInt int                        \<comment> \<open>\<^verbatim>\<open>int\<close>, also an \<^verbatim>\<open>IntEnum\<close> member\<close>
  | VBool bool
  | VFloat pyfloat
  | VBytes "byte list"              \<comment> \<open>\<^verbatim>\<open>bytes\<close> or \<^verbatim>\<open>bytearray\<close>\<close>
  | VStruct "(string \<times> pyval) list"  \<comment> \<open>a dataclass instance: its attributes by name\<close>

subsection \<open>Integers and byte strings\<close>

text \<open>\<^verbatim>\<open>int.from_bytes(b, 'little')\<close> and \<^verbatim>\<open>n.to_bytes(length, 'little')\<close>; the latter raises
  \<^verbatim>\<open>OverflowError\<close> for a negative \<open>n\<close> and for one that does not fit.\<close>

fun int_from_bytes :: "byte list \<Rightarrow> int" where
  "int_from_bytes [] = 0"
| "int_from_bytes (b # bs) = uint b + 256 * int_from_bytes bs"

fun bytes_of :: "int \<Rightarrow> nat \<Rightarrow> byte list" where
  "bytes_of n 0 = []"
| "bytes_of n (Suc k) = word_of_int n # bytes_of (n div 256) k"

definition int_to_bytes :: "int \<Rightarrow> nat \<Rightarrow> error + byte list" where
  "int_to_bytes n len =
     (if n < 0 \<or> 256 ^ len \<le> n then Inl OverflowError else Inr (bytes_of n len))"

fun bit_length :: "nat \<Rightarrow> nat" where
  "bit_length n = (if n = 0 then 0 else Suc (bit_length (n div 2)))"

declare bit_length.simps [simp del]

subsection \<open>Floats\<close>

text \<open>
  The fields of a binary64 pattern, \<^verbatim>\<open>math.isfinite\<close>, and the comparisons \<^verbatim>\<open><\<close> and \<^verbatim>\<open>>\<close>.
  Patterns of the same sign order as their magnitudes do, both zeros are equal, and a NaN
  compares false with everything.
\<close>

definition f_sign :: "pyfloat \<Rightarrow> bool" where
  "f_sign x = bit x 63"

definition f_exp :: "pyfloat \<Rightarrow> nat" where
  "f_exp x = unat (drop_bit 52 x) mod 2048"

definition f_man :: "pyfloat \<Rightarrow> nat" where
  "f_man x = unat x mod 2 ^ 52"

definition isfinite :: "pyfloat \<Rightarrow> bool" where
  "isfinite x = (f_exp x \<noteq> 2047)"

definition isnan :: "pyfloat \<Rightarrow> bool" where
  "isnan x = (f_exp x = 2047 \<and> f_man x \<noteq> 0)"

definition f_key :: "pyfloat \<Rightarrow> int" where
  "f_key x = (if f_sign x then - int (unat x mod 2 ^ 63) else int (unat x mod 2 ^ 63))"

definition float_lt :: "pyfloat \<Rightarrow> pyfloat \<Rightarrow> bool" where
  "float_lt a b = (\<not> isnan a \<and> \<not> isnan b \<and> f_key a < f_key b)"

definition float_gt :: "pyfloat \<Rightarrow> pyfloat \<Rightarrow> bool" where
  "float_gt a b = float_lt b a"

text \<open>Rounding \<open>m / 2 ^ sh\<close> to the nearest integer, ties to even: IEEE-754's default mode.\<close>

definition round_half_even :: "nat \<Rightarrow> nat \<Rightarrow> nat" where
  "round_half_even m sh =
     (let q = m div 2 ^ sh; r = m mod 2 ^ sh
      in if 2 ^ sh < 2 * r \<or> (2 * r = 2 ^ sh \<and> odd q) then q + 1 else q)"

text \<open>
  \<^verbatim>\<open>int.from_bytes(struct.pack("<f", x), 'little')\<close>: the binary32 pattern of the double \<open>x\<close>
  rounded to single precision. A finite \<open>x\<close> that rounds to infinity makes \<^verbatim>\<open>struct.pack\<close> raise
  \<^verbatim>\<open>OverflowError\<close>. A double \<open>sig * 2 ^ (E - 1075)\<close> is a normal single from \<open>E = 897\<close> on
  (unbiased exponent \<open>-126\<close>) and a multiple of \<open>2 ^ (-149)\<close> below. A NaN keeps its sign and
  the top of its payload, quieted, as the C conversion does.
\<close>

definition struct_pack_f :: "pyfloat \<Rightarrow> error + int" where
  "struct_pack_f x =
     (let s = (if f_sign x then 2 ^ 31 else 0); e = f_exp x; m = f_man x
      in if e = 2047
         then Inr (int (s + 0x7F800000 + (if m = 0 then 0 else (m div 2 ^ 29) OR 0x400000)))
         else
           let sig = (if e = 0 then m else 2 ^ 52 + m);
               E = max e 1;
               mag = (if 897 \<le> E then (E - 897) * 2 ^ 23 + round_half_even sig 29
                      else round_half_even sig (926 - E))
           in if 0x7F800000 \<le> mag then Inl OverflowError else Inr (int (s + mag)))"

text \<open>\<^verbatim>\<open>int.from_bytes(struct.pack("<d", x), 'little')\<close>: the pattern itself.\<close>

definition struct_pack_d :: "pyfloat \<Rightarrow> int" where
  "struct_pack_d x = uint x"

text \<open>
  \<^verbatim>\<open>struct.unpack("<f", b)[0]\<close> for the four bytes of \<open>n < 2 ^ 32\<close>: the double equal to the
  binary32 value (exact; a subnormal single is a normal double), and
  \<^verbatim>\<open>struct.unpack("<d", b)[0]\<close> for the eight bytes of \<open>n < 2 ^ 64\<close>.
\<close>

definition struct_unpack_f :: "int \<Rightarrow> pyfloat" where
  "struct_unpack_f n =
     (let b = nat n; s = (if odd (b div 2 ^ 31) then 2 ^ 63 else 0);
          e = b div 2 ^ 23 mod 256; m = b mod 2 ^ 23
      in word_of_nat
           (s + (if e = 255 then 2047 * 2 ^ 52 + (if m = 0 then 0 else (m * 2 ^ 29) OR 2 ^ 51)
                 else if e = 0
                 then (if m = 0 then 0
                       else let k = bit_length m - 1
                            in (k + 874) * 2 ^ 52 + (m - 2 ^ k) * 2 ^ (52 - k))
                 else (e + 896) * 2 ^ 52 + m * 2 ^ 29)))"

definition struct_unpack_d :: "int \<Rightarrow> pyfloat" where
  "struct_unpack_d n = word_of_int n"

text \<open>\<^verbatim>\<open>float(n)\<close> of an integer (nearest double, \<^verbatim>\<open>OverflowError\<close> beyond the range) and
  \<^verbatim>\<open>int(x)\<close> of a float (towards zero; infinities and NaN raise).\<close>

definition float_of_int :: "int \<Rightarrow> error + pyfloat" where
  "float_of_int n =
     (let s = (if n < 0 then 2 ^ 63 else 0); a = nat \<bar>n\<bar>; l = bit_length a
      in if a = 0 then Inr 0
         else if l \<le> 53 then Inr (word_of_nat (s + (l + 1022) * 2 ^ 52 + (a * 2 ^ (53 - l) - 2 ^ 52)))
         else
           let mag = (l + 1021) * 2 ^ 52 + round_half_even a (l - 53)
           in if 2047 * 2 ^ 52 \<le> mag then Inl OverflowError else Inr (word_of_nat (s + mag)))"

definition int_of_float :: "pyfloat \<Rightarrow> error + int" where
  "int_of_float x =
     (if f_exp x = 2047
      then (if f_man x = 0 then Inl OverflowError else Inl (ValueError NaNToInteger))
      else
        let E = max (f_exp x) 1;
            sig = (if f_exp x = 0 then f_man x else 2 ^ 52 + f_man x);
            a = (if 1075 \<le> E then sig * 2 ^ (E - 1075) else sig div 2 ^ (1075 - E))
        in Inr (if f_sign x then - int a else int a))"

subsection \<open>The constructors \<^verbatim>\<open>int\<close>, \<^verbatim>\<open>float\<close>, \<^verbatim>\<open>bool\<close> and \<^verbatim>\<open>len\<close>\<close>

fun py_int :: "pyval \<Rightarrow> error + int" where
  "py_int (VInt n) = Inr n"
| "py_int (VBool b) = Inr (of_bool b)"
| "py_int (VFloat x) = int_of_float x"
| "py_int (VBytes bs) = Inl LiteralParsing"
| "py_int VNone = Inl TypeError"
| "py_int (VStruct fs) = Inl TypeError"

fun py_float :: "pyval \<Rightarrow> error + pyfloat" where
  "py_float (VFloat x) = Inr x"
| "py_float (VInt n) = float_of_int n"
| "py_float (VBool b) = float_of_int (of_bool b)"
| "py_float (VBytes bs) = Inl LiteralParsing"
| "py_float VNone = Inl TypeError"
| "py_float (VStruct fs) = Inl TypeError"

fun py_bool :: "pyval \<Rightarrow> bool" where
  "py_bool VNone = False"
| "py_bool (VInt n) = (n \<noteq> 0)"
| "py_bool (VBool b) = b"
| "py_bool (VFloat x) = (unat x mod 2 ^ 63 \<noteq> 0)"
| "py_bool (VBytes bs) = (bs \<noteq> [])"
| "py_bool (VStruct fs) = True"

text \<open>What \<^verbatim>\<open>ivalue << self.offset\<close> accepts on its left: an \<^verbatim>\<open>int\<close> or a \<^verbatim>\<open>bool\<close>.\<close>

fun shiftable :: "pyval \<Rightarrow> error + int" where
  "shiftable (VInt n) = Inr n"
| "shiftable (VBool b) = Inr (of_bool b)"
| "shiftable v = Inl TypeError"

section \<open>Signals\<close>

text \<open>
  The metadata classes of \<^verbatim>\<open>model.py\<close>, with their fields in the order of the source:
  \<^verbatim>\<open>UInt\<close> and \<^verbatim>\<open>SInt\<close> \<open>(width, min, max, default_value, factor_num, factor_den, offset)\<close>,
  \<^verbatim>\<open>Float\<close> \<open>(width, min, max, default_value, allow_nan_inf, factor_num, factor_den, offset)\<close>,
  \<^verbatim>\<open>Buffer\<close>, \<^verbatim>\<open>Bitset\<close> and \<^verbatim>\<open>Enum\<close> \<open>(width, default_value)\<close>, \<^verbatim>\<open>Boolean\<close> \<open>(default_value)\<close>.
  A width is a natural number. \<^verbatim>\<open>Struct(dtype)\<close> carries what the codec reads of its
  dataclass: the type hints by field name, in declaration order. A hint is a plain
  annotation (skipped by the codec), \<^verbatim>\<open>Annotated[_, Signal(...)]\<close>, or \<^verbatim>\<open>Annotated\<close> with
  something that is not a \<^verbatim>\<open>Signal\<close> (a \<^verbatim>\<open>TypeError\<close>).
\<close>

datatype meta =
    UInt nat "int option" "int option" int int int int
  | SInt nat "int option" "int option" int int int int
  | Float nat "pyfloat option" "pyfloat option" pyfloat bool int int pyfloat
  | Buffer nat "byte list"
  | Boolean bool
  | Bitset nat int
  | Enum nat int
  | Struct "(string \<times> hint) list"
and hint =
    HPlain
  | HSignal signal
  | HOther
and signal =
    Signal (sig_offset: nat) (sig_meta: meta) (optional: bool)

subsection \<open>Helpers of \<^verbatim>\<open>utils\<close>\<close>

text \<open>
  Modelled from the spec: the module \<^verbatim>\<open>utils\<close> of \<^verbatim>\<open>pycanandmessage\<close> is not among the
  sources. \<^verbatim>\<open>unwrap_or\<close>, \<^verbatim>\<open>default_uint_max\<close>, \<^verbatim>\<open>default_sint_min\<close> and
  \<^verbatim>\<open>default_sint_max\<close> are as the spec gives the implicit bounds (\<open>2 ^ width - 1\<close>,
  \<open>- 2 ^ (width - 1)\<close> and \<open>2 ^ (width - 1) - 1\<close>) and as the helpers of these names in
  \<^verbatim>\<open>canandmessage_parser/utils.py\<close> compute them, with \<^verbatim>\<open>1 << n\<close>. Python evaluates a
  default before the call, so \<^verbatim>\<open>1 << (width - 1)\<close> raises for width 0 whether or not the
  bound is given.
\<close>

definition unwrap_or :: "'a option \<Rightarrow> 'a \<Rightarrow> 'a" where
  "unwrap_or v d = (case v of None \<Rightarrow> d | Some x \<Rightarrow> x)"

definition default_uint_max :: "nat \<Rightarrow> int" where
  "default_uint_max width = push_bit width 1 - 1"

definition default_sint_min :: "nat \<Rightarrow> error + int" where
  "default_sint_min width =
     (if width = 0 then Inl (ValueError NegativeShiftCount) else Inr (- push_bit (width - 1) 1))"

definition default_sint_max :: "nat \<Rightarrow> error + int" where
  "default_sint_max width =
     (if width = 0 then Inl (ValueError NegativeShiftCount) else Inr (push_bit (width - 1) 1 - 1))"

text \<open>Modelled from the spec: \<^verbatim>\<open>utils.mask\<close> of \<^verbatim>\<open>pycanandmessage\<close>, whose module is not among
  the sources; the spec writes the mask of a \<open>w\<close>-bit field as \<^verbatim>\<open>(1<<w)-1\<close>, as the generator's
  own \<^verbatim>\<open>mask\<close> in \<^verbatim>\<open>canandmessage_translingual/python.py\<close> does.\<close>

definition utils_mask :: "nat \<Rightarrow> int" where
  "utils_mask s = push_bit s 1 - 1"

text \<open>\<^verbatim>\<open>getattr(value, name)\<close> on a dataclass instance; any other value has no such field.\<close>

fun getattr :: "pyval \<Rightarrow> string \<Rightarrow> error + pyval" where
  "getattr (VStruct fs) name = (case map_of fs name of None \<Rightarrow> Inl AttributeError | Some v \<Rightarrow> Inr v)"
| "getattr v name = Inl AttributeError"

subsection \<open>\<^verbatim>\<open>Signal.encode\<close>\<close>

text \<open>
  \<open>encode_meta\<close> is the \<^verbatim>\<open>match meta\<close> statement of \<^verbatim>\<open>Signal.encode\<close>, giving \<^verbatim>\<open>ivalue\<close>;
  \<open>encode_fields\<close> is the loop of its \<^verbatim>\<open>Struct\<close> case, with \<^verbatim>\<open>ivalue\<close> as accumulator.
  For \<^verbatim>\<open>Bitset\<close> and \<^verbatim>\<open>Enum\<close> the source takes the value as it is, and the final shift
  rejects what is not an integer. The \<^verbatim>\<open>Float\<close> case compares with \<^verbatim>\<open>meta.min\<close> in both bound
  checks, as the source does; with \<^verbatim>\<open>min\<close> absent the second comparison is between a float
  and \<^verbatim>\<open>None\<close>.
\<close>

fun encode :: "signal \<Rightarrow> string \<Rightarrow> pyval \<Rightarrow> error + int"
  and encode_meta :: "meta \<Rightarrow> string \<Rightarrow> pyval \<Rightarrow> error + int"
  and encode_fields :: "(string \<times> hint) list \<Rightarrow> string \<Rightarrow> pyval \<Rightarrow> int \<Rightarrow> error + int"
where
  "encode (Signal offset meta opt) name v =
     (if opt \<and> v = VNone then Inr 0
      else case encode_meta meta name v of
             Inl e \<Rightarrow> Inl e
           | Inr ivalue \<Rightarrow> Inr (push_bit offset ivalue))"
| "encode_meta (UInt width mn mx dv fnum fden off) name v =
     (case py_int v of
        Inl e \<Rightarrow> Inl e
      | Inr n \<Rightarrow>
          let min_bound = unwrap_or mn 0;
              max_bound = unwrap_or mx (default_uint_max width)
          in if \<not> (min_bound \<le> n \<and> n \<le> max_bound) then Inl (ValueError OutOfBounds)
             else Inr (n AND utils_mask width))"
| "encode_meta (SInt width mn mx dv fnum fden off) name v =
     (case py_int v of
        Inl e \<Rightarrow> Inl e
      | Inr n \<Rightarrow>
          (case default_sint_min width of
             Inl e \<Rightarrow> Inl e
           | Inr dmin \<Rightarrow>
               (case default_sint_max width of
                  Inl e \<Rightarrow> Inl e
                | Inr dmax \<Rightarrow>
                    let min_bound = unwrap_or mn dmin;
                        max_bound = unwrap_or mx dmax
                    in if \<not> (min_bound \<le> n \<and> n \<le> max_bound) then Inl (ValueError OutOfBounds)
                       else Inr (n AND utils_mask width))))"
| "encode_meta (Boolean dv) name v = Inr (of_bool (py_bool v))"
| "encode_meta (Float width mn mx dv allow_nan_inf fnum fden off) name v =
     (case py_float v of
        Inl e \<Rightarrow> Inl e
      | Inr x \<Rightarrow>
          if \<not> (allow_nan_inf \<or> isfinite x) then Inl (ValueError NonFinite)
          else if (case mn of None \<Rightarrow> False | Some lo \<Rightarrow> float_lt x lo)
          then Inl (ValueError LessThanMinimum)
          else if mx \<noteq> None \<and> mn = None then Inl TypeError
          else if (case mx of
                     None \<Rightarrow> False
                   | Some hi \<Rightarrow> (case mn of None \<Rightarrow> False | Some lo \<Rightarrow> float_gt x lo))
          then Inl (ValueError GreaterThanMaximum)
          else if width = 24 then
            (case struct_pack_f x of Inl e \<Rightarrow> Inl e | Inr b \<Rightarrow> Inr (drop_bit 8 b))
          else if width = 32 then struct_pack_f x
          else if width = 64 then Inr (struct_pack_d x)
          else Inl (ValueError InvalidFloatSize))"
| "encode_meta (Buffer width dv) name v =
     (case v of
        VBytes bs \<Rightarrow>
          let max_len = (width + 7) div 8
          in if max_len < length bs then Inl (ValueError BufferLen)
             else Inr (int_from_bytes bs)
      | _ \<Rightarrow> Inl TypeError)"
| "encode_meta (Bitset width dv) name v = shiftable v"
| "encode_meta (Enum width dv) name v = shiftable v"
| "encode_meta (Struct hints) name v = encode_fields hints name v 0"
| "encode_fields [] name v ivalue = Inr ivalue"
| "encode_fields ((subsig_name, h) # hints) name v ivalue =
     (case h of
        HPlain \<Rightarrow> encode_fields hints name v ivalue
      | HOther \<Rightarrow> Inl TypeError
      | HSignal subsig \<Rightarrow>
          (case getattr v subsig_name of
             Inl e \<Rightarrow> Inl e
           | Inr subsig_value \<Rightarrow>
               (case encode subsig (name @ ''.'' @ subsig_name) subsig_value of
                  Inl e \<Rightarrow> Inl e
                | Inr x \<Rightarrow> encode_fields hints name v (ivalue OR x))))"

subsection \<open>\<^verbatim>\<open>Signal.decode\<close>\<close>

text \<open>
  The result is \<open>VNone\<close> where the source returns \<^verbatim>\<open>None\<close>. The 24-bit float case shifts the
  field left by 8 and then the result by 8 again before \<^verbatim>\<open>to_bytes(4, 'little')\<close>, as the
  source does. \<open>decode_fields\<close> is the loop of the \<^verbatim>\<open>Struct\<close> case, collecting
  \<^verbatim>\<open>subsig_data\<close>; \<^verbatim>\<open>meta.dtype(**subsig_data)\<close> is the instance with these attributes.
\<close>

fun decode :: "signal \<Rightarrow> int \<Rightarrow> int \<Rightarrow> error + pyval"
  and decode_meta :: "meta \<Rightarrow> nat \<Rightarrow> int \<Rightarrow> int \<Rightarrow> error + pyval"
  and decode_fields :: "(string \<times> hint) list \<Rightarrow> int \<Rightarrow> int \<Rightarrow> error + (string \<times> pyval) list"
where
  "decode (Signal offset meta opt) data max_idx =
     (if max_idx < int offset then Inr VNone
      else decode_meta meta offset (drop_bit offset data) max_idx)"
| "decode_meta (UInt width mn mx dv fnum fden off) offset data max_idx =
     Inr (VInt (data AND utils_mask width))"
| "decode_meta (SInt width mn mx dv fnum fden off) offset data max_idx =
     (let v = data AND utils_mask width
      in if width = 0 then Inl (ValueError NegativeShiftCount)
         else if push_bit (width - 1) 1 \<le> v then Inr (VInt (v - push_bit width 1))
         else Inr (VInt v))"
| "decode_meta (Boolean dv) offset data max_idx = Inr (VBool (data AND 1 \<noteq> 0))"
| "decode_meta (Float width mn mx dv allow_nan_inf fnum fden off) offset data max_idx =
     (let data = data AND utils_mask width
      in if width = 24 then
           (let data = push_bit 8 (data AND 0xffffff)
            in case int_to_bytes (push_bit 8 data) 4 of
                 Inl e \<Rightarrow> Inl e
               | Inr bs \<Rightarrow> Inr (VFloat (struct_unpack_f (int_from_bytes bs))))
         else if width = 32 then
           (case int_to_bytes data 4 of
              Inl e \<Rightarrow> Inl e
            | Inr bs \<Rightarrow> Inr (VFloat (struct_unpack_f (int_from_bytes bs))))
         else if width = 64 then
           (case int_to_bytes data 8 of
              Inl e \<Rightarrow> Inl e
            | Inr bs \<Rightarrow> Inr (VFloat (struct_unpack_d (int_from_bytes bs))))
         else Inl (ValueError InvalidFloatSize))"
| "decode_meta (Buffer width dv) offset data max_idx =
     (let data = data AND utils_mask width
      in case int_to_bytes data ((width + 7) div 8) of
           Inl e \<Rightarrow> Inl e
         | Inr bs \<Rightarrow> Inr (VBytes bs))"
| "decode_meta (Bitset width dv) offset data max_idx = Inr (VInt (data AND utils_mask width))"
| "decode_meta (Enum width dv) offset data max_idx = Inr (VInt (data AND utils_mask width))"
| "decode_meta (Struct hints) offset data max_idx =
     (case decode_fields hints data (max_idx - int offset) of
        Inl e \<Rightarrow> Inl e
      | Inr subsig_data \<Rightarrow> Inr (VStruct subsig_data))"
| "decode_fields [] data max_idx = Inr []"
| "decode_fields ((subsig_name, h) # hints) data max_idx =
     (case h of
        HPlain \<Rightarrow> decode_fields hints data max_idx
      | HOther \<Rightarrow> Inl TypeError
      | HSignal subsig \<Rightarrow>
          (case decode subsig data max_idx of
             Inl e \<Rightarrow> Inl e
           | Inr x \<Rightarrow>
               (case decode_fields hints data max_idx of
                  Inl e \<Rightarrow> Inl e
                | Inr rest \<Rightarrow> Inr ((subsig_name, x) # rest))))"

section \<open>Messages and frames\<close>

text \<open>
  A message class is its \<^verbatim>\<open>__meta__\<close> and its type hints in declaration order; an instance
  is a \<open>VStruct\<close> of its attributes. \<open>to_wrapper_loop\<close> is the loop of
  \<^verbatim>\<open>BaseMessage.to_wrapper\<close> with \<^verbatim>\<open>dlc\<close> and \<^verbatim>\<open>data\<close> as accumulators.
\<close>

record MessageMeta =
  device_type :: int
  meta_id :: int
  min_length :: int
  max_length :: int

record message_class =
  meta :: MessageMeta
  hints :: "(string \<times> hint) list"

fun to_wrapper_loop ::
  "MessageMeta \<Rightarrow> (string \<times> hint) list \<Rightarrow> pyval \<Rightarrow> int \<Rightarrow> int \<Rightarrow> error + int \<times> int"
where
  "to_wrapper_loop m [] self dlc data = Inr (dlc, data)"
| "to_wrapper_loop m ((name, h) # rest) self dlc data =
     (case h of
        HPlain \<Rightarrow> to_wrapper_loop m rest self dlc data
      | HOther \<Rightarrow> Inl TypeError
      | HSignal sig \<Rightarrow>
          (case getattr self name of
             Inl e \<Rightarrow> Inl e
           | Inr v \<Rightarrow>
               if optional sig \<and> v = VNone then to_wrapper_loop m rest self dlc data
               else
                 (case encode sig name v of
                    Inl e \<Rightarrow> Inl e
                  | Inr x \<Rightarrow>
                      to_wrapper_loop m rest self
                        (if optional sig then max_length m else dlc) (data OR x))))"

record MessageWrapper =
  timestamp :: int
  data :: int
  dlc :: int
  arb_id :: int

definition to_wrapper ::
  "message_class \<Rightarrow> pyval \<Rightarrow> int \<Rightarrow> int option \<Rightarrow> error + MessageWrapper"
where
  "to_wrapper cls self dev_id dev_type =
     (let t = (case dev_type of None \<Rightarrow> device_type (meta cls) | Some t \<Rightarrow> t)
      in case to_wrapper_loop (meta cls) (hints cls) self (min_length (meta cls)) 0 of
           Inl e \<Rightarrow> Inl e
         | Inr (l, d) \<Rightarrow>
             Inr \<lparr>timestamp = 0, data = d, dlc = l,
                  arb_id = push_bit 24 t OR push_bit 16 0xe
                             OR push_bit 6 (meta_id (meta cls)) OR dev_id\<rparr>)"

definition from_wrapper :: "message_class \<Rightarrow> MessageWrapper \<Rightarrow> error + pyval" where
  "from_wrapper cls msg =
     (case decode_fields (hints cls) (data msg) (dlc msg * 8) of
        Inl e \<Rightarrow> Inl e
      | Inr subsig_data \<Rightarrow> Inr (VStruct subsig_data))"

subsection \<open>Arbitration identifiers\<close>

text \<open>\<^verbatim>\<open>CANDevice.addr\<close> of \<^verbatim>\<open>device.py\<close>, from the device class's \<^verbatim>\<open>device_type\<close>, the
  instance's \<^verbatim>\<open>dev_id\<close> and the api index.\<close>

definition REDUX_CAN_VENDOR_ID :: int where
  "REDUX_CAN_VENDOR_ID = 0xE"

definition CAN_MESSAGE_MASK :: int where
  "CAN_MESSAGE_MASK = 0x1fff003f"

definition addr :: "int \<Rightarrow> int \<Rightarrow> int \<Rightarrow> int" where
  "addr cls_device_type dev_id api_index =
     push_bit 24 (cls_device_type AND 0x1F) OR push_bit 16 (REDUX_CAN_VENDOR_ID AND 0xFF)
       OR push_bit 6 (api_index AND 0xFF) OR (dev_id AND 0x3F)"

text \<open>\<^verbatim>\<open>BaseDevice.decode_msg_generic\<close>: the match on device type and vendor, the message id
  read from the identifier, and the lookup of the message class.\<close>

record device_class =
  cls_device_type :: int
  messages :: "int \<rightharpoonup> message_class"

definition matches_device :: "int \<Rightarrow> int \<Rightarrow> bool" where
  "matches_device t a = (a AND 0x1fff0000 = (push_bit 24 t OR push_bit 16 0xe))"

definition msg_id_of :: "int \<Rightarrow> int" where
  "msg_id_of a = drop_bit 6 a AND 0xff"

definition decode_msg_generic :: "device_class \<Rightarrow> MessageWrapper \<Rightarrow> error + pyval" where
  "decode_msg_generic cls msg =
     (if \<not> matches_device (cls_device_type cls) (arb_id msg) then Inr VNone
      else case messages cls (msg_id_of (arb_id msg)) of
             None \<Rightarrow> Inr VNone
           | Some c \<Rightarrow> from_wrapper c msg)"

text \<open>Modelled from the spec: the decomposition of an identifier by the masks of its layout
  (bits 28..24 device type, 23..16 vendor, 15..6 api index, 5..0 device id), which the
  source has no function for.\<close>

definition id_device_type :: "int \<Rightarrow> int" where
  "id_device_type a = drop_bit 24 a AND 0x1F"

definition id_vendor :: "int \<Rightarrow> int" where
  "id_vendor a = drop_bit 16 a AND 0xFF"

definition id_api_index :: "int \<Rightarrow> int" where
  "id_api_index a = drop_bit 6 a AND 0x3FF"

definition id_device_id :: "int \<Rightarrow> int" where
  "id_device_id a = a AND 0x3F"

text \<open>The message class \<^verbatim>\<open>SettingCommand\<close> of the generated bindings
  (\<^verbatim>\<open>pycanandmessage/canandgyro/message.py\<close>): an 8-bit command and an optional trailing 8-bit
  setting index.\<close>

definition SettingCommand :: message_class where
  "SettingCommand =
     \<lparr>meta = \<lparr>device_type = 4, meta_id = 2, min_length = 1, max_length = 8\<rparr>,
      hints = [(''control_flag'', HSignal (Signal 0 (Enum 8 0) False)),
               (''setting_index'', HSignal (Signal 8 (Enum 8 0) True))]\<rparr>"

section \<open>Device specifications and their resolution\<close>

text \<open>
  The classes of \<^verbatim>\<open>canandmessage_parser/toml_defs.py\<close> that \<^verbatim>\<open>parse_spec\<close> reads or builds. A
  Python \<^verbatim>\<open>dict\<close> is the list of its items in insertion order, with distinct keys;
  \<open>dict_set\<close> is \<^verbatim>\<open>d[k] = v\<close> and \<open>dict_update\<close> is \<^verbatim>\<open>d.update(other)\<close>. The message and type
  tables and the \<^verbatim>\<open>Anything\<close>-typed default of a setting are only copied by the resolver
  and stay type parameters.
\<close>

fun dict_set :: "'k \<Rightarrow> 'v \<Rightarrow> ('k \<times> 'v) list \<Rightarrow> ('k \<times> 'v) list" where
  "dict_set k v [] = [(k, v)]"
| "dict_set k v (p # ps) = (if fst p = k then (k, v) # ps else p # dict_set k v ps)"

definition dict_update :: "('k \<times> 'v) list \<Rightarrow> ('k \<times> 'v) list \<Rightarrow> ('k \<times> 'v) list" where
  "dict_update d other = fold (\<lambda>(k, v). dict_set k v) other d"

record EnumEntrySpec =
  entry_id :: int
  entry_comment :: string

record EnumSpec =
  enum_comment :: string
  enum_btype :: string
  enum_bits :: int
  enum_is_public :: bool
  enum_default_value :: string
  enum_values :: "(string \<times> EnumEntrySpec) list"

record 'v DeviceSettingSpec =
  stg_id :: int
  stg_comment :: string
  stg_dtype :: string
  stg_default_value :: "'v option"
  stg_is_public :: bool
  stg_vendordep :: bool
  stg_vdep_setting :: bool
  stg_readable :: bool
  stg_writable :: bool
  stg_reset_on_default :: bool
  stg_special_flags :: "string list"

record SettingCommandSpec =
  cmd_id :: int
  cmd_vendordep :: bool
  cmd_comment :: string

record VendordepSpec =
  java_package :: string
  cpp_namespace :: string

record ('m, 't, 'v) DeviceSpec =
  spec_name :: string
  spec_base :: "string list"
  spec_arch :: string
  spec_is_public :: bool
  spec_dev_type :: int
  spec_dev_class :: int
  spec_msg :: "(string \<times> 'm) list"
  spec_settings :: "(string \<times> 'v DeviceSettingSpec) list"
  spec_types :: "(string \<times> 't) list"
  spec_enums :: "(string \<times> EnumSpec) list"
  spec_setting_commands :: "(string \<times> SettingCommandSpec) list"
  spec_vendordep :: "VendordepSpec option"

text \<open>\<^verbatim>\<open>str.lower\<close> on the ASCII letters, and the file a base name is read from.\<close>

definition lower_char :: "char \<Rightarrow> char" where
  "lower_char c =
     (case map_of (zip ''ABCDEFGHIJKLMNOPQRSTUVWXYZ'' ''abcdefghijklmnopqrstuvwxyz'') c of
        None \<Rightarrow> c
      | Some l \<Rightarrow> l)"

definition base_file :: "string \<Rightarrow> string" where
  "base_file base = map lower_char base @ ''.toml''"

text \<open>
  One round of the loop of \<^verbatim>\<open>parse_spec\<close>: the freshly loaded base takes the identity of
  the spec above it, appends the base names it does not have yet, and has its tables
  updated with those of the spec above.
\<close>

definition merge_upper ::
  "('m, 't, 'v) DeviceSpec \<Rightarrow> ('m, 't, 'v) DeviceSpec \<Rightarrow> ('m, 't, 'v) DeviceSpec"
where
  "merge_upper base_spec upper_dev =
     base_spec
       \<lparr>spec_arch := spec_arch upper_dev,
        spec_base :=
          fold (\<lambda>base_dev_name bs. if base_dev_name \<in> set bs then bs else bs @ [base_dev_name])
            (spec_base upper_dev) (spec_base base_spec),
        spec_dev_class := spec_dev_class upper_dev,
        spec_dev_type := spec_dev_type upper_dev,
        spec_name := spec_name upper_dev,
        spec_enums := dict_update (spec_enums base_spec) (spec_enums upper_dev),
        spec_types := dict_update (spec_types base_spec) (spec_types upper_dev),
        spec_msg := dict_update (spec_msg base_spec) (spec_msg upper_dev),
        spec_settings := dict_update (spec_settings base_spec) (spec_settings upper_dev),
        spec_setting_commands :=
          dict_update (spec_setting_commands base_spec) (spec_setting_commands upper_dev),
        spec_vendordep := spec_vendordep upper_dev\<rparr>"

text \<open>The files of the spec directory are a function from file name to the parsed spec, or
  to the error that opening it or \<^verbatim>\<open>DeviceSpec.from_dict\<close> raises.\<close>

fun resolve_bases ::
  "(string \<Rightarrow> error + ('m, 't, 'v) DeviceSpec) \<Rightarrow> string list \<Rightarrow> ('m, 't, 'v) DeviceSpec
     \<Rightarrow> error + ('m, 't, 'v) DeviceSpec"
where
  "resolve_bases load [] upper_dev = Inr upper_dev"
| "resolve_bases load (base # bases) upper_dev =
     (case load (base_file base) of
        Inl e \<Rightarrow> Inl e
      | Inr base_spec \<Rightarrow> resolve_bases load bases (merge_upper base_spec upper_dev))"

text \<open>The two \<^verbatim>\<open>EnumSpec.from_dict({...})\<close> of \<^verbatim>\<open>parse_spec\<close>: \<^verbatim>\<open>btype\<close> \<open>uint\<close>, 8 bits, public,
  empty default, an entry per setting or setting command; \<^verbatim>\<open>comment\<close>, absent from the
  dictionary, takes its default, the empty string.\<close>

definition setting_enum :: "(string \<times> 'v DeviceSettingSpec) list \<Rightarrow> EnumSpec" where
  "setting_enum settings =
     \<lparr>enum_comment = [], enum_btype = ''uint'', enum_bits = 8, enum_is_public = True,
      enum_default_value = [],
      enum_values =
        map (\<lambda>(name, stg). (name, \<lparr>entry_id = stg_id stg, entry_comment = stg_comment stg\<rparr>))
          settings\<rparr>"

definition setting_command_enum :: "(string \<times> SettingCommandSpec) list \<Rightarrow> EnumSpec" where
  "setting_command_enum setting_commands =
     \<lparr>enum_comment = [], enum_btype = ''uint'', enum_bits = 8, enum_is_public = True,
      enum_default_value = [],
      enum_values =
        map (\<lambda>(name, cmd). (name, \<lparr>entry_id = cmd_id cmd, entry_comment = cmd_comment cmd\<rparr>))
          setting_commands\<rparr>"

definition parse_spec ::
  "(string \<Rightarrow> error + ('m, 't, 'v) DeviceSpec) \<Rightarrow> string \<Rightarrow> error + ('m, 't, 'v) DeviceSpec"
where
  "parse_spec load spec_path =
     (case load spec_path of
        Inl e \<Rightarrow> Inl e
      | Inr dev_spec \<Rightarrow>
          (case resolve_bases load (spec_base dev_spec) dev_spec of
             Inl e \<Rightarrow> Inl e
           | Inr dev \<Rightarrow>
               Inr (dev\<lparr>spec_enums :=
                      dict_set ''SETTING_COMMAND'' (setting_command_enum (spec_setting_commands dev))
                        (dict_set ''SETTING'' (setting_enum (spec_settings dev))
                           (spec_enums dev))\<rparr>)))"

subsection \<open>Lowering an enum\<close>

text \<open>\<^verbatim>\<open>EnumMeta\<close> and \<^verbatim>\<open>EnumEntry\<close> of \<^verbatim>\<open>canandmessage_parser/__init__.py\<close>, and
  \<^verbatim>\<open>impl_EnumMeta_from\<close> of \<^verbatim>\<open>model_impl.py\<close>. Its \<^verbatim>\<open>values\<close> are keyed by entry id, a later
  entry replacing an earlier one of the same id. The empty string is \<open>[]\<close>.\<close>

record EnumEntry =
  ee_name :: string
  ee_comment :: string
  ee_index :: int

record EnumMeta =
  em_name :: string
  em_width :: int
  em_default_value :: string
  em_default_value_idx :: int
  em_is_public :: bool
  em_values :: "(int \<times> EnumEntry) list"

definition impl_EnumMeta_from :: "string \<Rightarrow> EnumSpec \<Rightarrow> string option \<Rightarrow> error + EnumMeta" where
  "impl_EnumMeta_from name entry default_value =
     (let dv = (case default_value of
                  None \<Rightarrow> enum_default_value entry
                | Some s \<Rightarrow> if s = [] then enum_default_value entry else s);
          vals = fold (\<lambda>(ent_name, ent).
                    dict_set (entry_id ent)
                      \<lparr>ee_name = ent_name, ee_comment = entry_comment ent, ee_index = entry_id ent\<rparr>)
                   (enum_values entry) []
      in case map_of (enum_values entry) dv of
           None \<Rightarrow>
             if name = ''SETTING'' \<or> name = ''SETTING_COMMAND''
             then Inr \<lparr>em_name = name, em_width = enum_bits entry, em_default_value = [],
                       em_default_value_idx = 0, em_is_public = enum_is_public entry,
                       em_values = vals\<rparr>
             else Inl (ValueError InvalidEnumDefault)
         | Some ent \<Rightarrow>
             Inr \<lparr>em_name = name, em_width = enum_bits entry, em_default_value = dv,
                  em_default_value_idx = entry_id ent, em_is_public = enum_is_public entry,
                  em_values = vals\<rparr>)"

subsection \<open>A derived spec and its base\<close>

text \<open>
  A two-file spec directory in the shape of the shipped devices, cut down to the settings
  \<^verbatim>\<open>CAN_ID\<close> and \<^verbatim>\<open>YAW_FRAME_PERIOD\<close> and one setting command: \<^verbatim>\<open>canandgyro.toml\<close> names
  \<^verbatim>\<open>CanandDevice\<close> as its base, and the base file declares an enum of its own under the
  name \<open>SETTING\<close>.
\<close>

definition example_setting :: "int \<Rightarrow> string \<Rightarrow> unit DeviceSettingSpec" where
  "example_setting i c =
     \<lparr>stg_id = i, stg_comment = c, stg_dtype = ''uint:8'', stg_default_value = None,
      stg_is_public = True, stg_vendordep = True, stg_vdep_setting = True, stg_readable = True,
      stg_writable = True, stg_reset_on_default = True, stg_special_flags = []\<rparr>"

definition example_base :: "(unit, unit, unit) DeviceSpec" where
  "example_base =
     \<lparr>spec_name = ''CanandDevice'', spec_base = [], spec_arch = ''none'', spec_is_public = True,
      spec_dev_type = 0, spec_dev_class = 0, spec_msg = [],
      spec_settings = [(''CAN_ID'', example_setting 0 ''CAN Device ID'')],
      spec_types = [],
      spec_enums = [(''SETTING'',
        \<lparr>enum_comment = [], enum_btype = ''uint'', enum_bits = 4, enum_is_public = False,
         enum_default_value = ''OLD'',
         enum_values = [(''OLD'', \<lparr>entry_id = 9, entry_comment = ''stale''\<rparr>)]\<rparr>)],
      spec_setting_commands =
        [(''FETCH_SETTINGS'', \<lparr>cmd_id = 0, cmd_vendordep = True, cmd_comment = ''Fetch all settings''\<rparr>)],
      spec_vendordep = None\<rparr>"

definition example_root :: "(unit, unit, unit) DeviceSpec" where
  "example_root =
     \<lparr>spec_name = ''Canandgyro'', spec_base = [''CanandDevice''], spec_arch = ''stm32'',
      spec_is_public = True, spec_dev_type = 4, spec_dev_class = 0, spec_msg = [],
      spec_settings = [(''YAW_FRAME_PERIOD'', example_setting 0xff ''Yaw angle frame period (ms)'')],
      spec_types = [], spec_enums = [], spec_setting_commands = [],
      spec_vendordep = None\<rparr>"

definition example_load :: "string \<Rightarrow> error + (unit, unit, unit) DeviceSpec" where
  "example_load f =
     (if f = ''canandgyro.toml'' then Inr example_root
      else if f = ''cananddevice.toml'' then Inr example_base
      else Inl FileNotFoundError)"

section \<open>Arithmetic of bit fields\<close>

lemma and_mask_id: "0 \<le> x \<Longrightarrow> x < 2 ^ n \<Longrightarrow> (x::int) AND (2 ^ n - 1) = x"
  using take_bit_int_eq_self [of x n] by (simp add: take_bit_eq_mask mask_eq_exp_minus_1)

lemma and_low_mod: "(x::int) AND (2 ^ n - 1) = x mod 2 ^ n"
  using take_bit_eq_mask [of n x] by (simp add: mask_eq_exp_minus_1 take_bit_eq_mod)

lemma push_or_low: "0 \<le> b \<Longrightarrow> b < 2 ^ n \<Longrightarrow> push_bit n a OR b = a * 2 ^ n + (b::int)"
  using concat_bit_eq [of n b a]
  by (simp add: concat_bit_def take_bit_int_eq_self push_bit_eq_mult or.commute)

lemma and_high_mask:
  fixes a :: int
  shows "a AND push_bit n (2 ^ k - 1) = push_bit n (drop_bit n a mod 2 ^ k)"
proof -
  have "a AND push_bit n (mask k) = push_bit n (take_bit k (drop_bit n a))"
    by (rule bit_eqI) (auto simp add: bit_simps)
  then show ?thesis by (simp add: mask_eq_exp_minus_1 take_bit_eq_mod)
qed

lemma divmod_step:
  fixes q b n :: int
  assumes "0 \<le> b" "b < n"
  shows "(q * n + b) div n = q" "(q * n + b) mod n = b"
  using assms by simp_all

section \<open>The arbitration identifier\<close>

lemma id_layout:
  fixes t d m :: int
  shows "push_bit 24 t OR push_bit 16 14 OR push_bit 6 m OR d
     = push_bit 6 (push_bit 10 (push_bit 8 t OR 14) OR m) OR d"
  by (simp only: push_bit_or push_bit_push_bit or.assoc) simp

lemma id_sum:
  assumes "0 \<le> d" "d < 64" "0 \<le> m" "m < 1024"
  shows "push_bit 24 t OR push_bit 16 14 OR push_bit 6 m OR d
     = ((t * 256 + 14) * 1024 + m) * 64 + (d::int)"
  unfolding id_layout using assms push_or_low [of d 6] push_or_low [of m 10] push_or_low [of 14 8 t]
  by simp

lemma addr_sum:
  assumes "0 \<le> t" "t < 32" "0 \<le> d" "d < 64" "0 \<le> m" "m < 256"
  shows "addr t d m = ((t * 256 + 14) * 1024 + m) * 64 + d"
proof -
  have "t AND 0x1F = t" using and_mask_id [of t 5] assms by simp
  moreover have "m AND 0xFF = m" using and_mask_id [of m 8] assms by simp
  moreover have "d AND 0x3F = d" using and_mask_id [of d 6] assms by simp
  moreover have "(0xE::int) AND 0xFF = 0xE" by simp
  ultimately show ?thesis
    unfolding addr_def REDUX_CAN_VENDOR_ID_def using id_sum [of d m t] assms by simp
qed

lemma fields_of_sum:
  fixes t d m :: int
  assumes "0 \<le> t" "t < 32" "0 \<le> d" "d < 64" "0 \<le> m" "m < 256"
  defines "r \<equiv> t * 256 + 14"
  defines "q \<equiv> r * 1024 + m"
  defines "a \<equiv> q * 64 + d"
  shows "a mod 64 = d" "a div 64 mod 1024 = m" "a div 64 mod 256 = m"
    "a div 65536 mod 256 = 14" "a div 16777216 mod 32 = t" "a div 65536 = r"
proof -
  show "a mod 64 = d" unfolding a_def using assms(3,4) by (rule divmod_step)
  have aq: "a div 64 = q" unfolding a_def using assms(3,4) by (rule divmod_step)
  have m': "m < 1024" using assms by simp
  show "a div 64 mod 1024 = m" unfolding aq q_def using assms(5) m' by (rule divmod_step)
  have qr: "q div 1024 = r" unfolding q_def using assms(5) m' by (rule divmod_step)
  have "q = (r * 4) * 256 + m" unfolding q_def by simp
  then show "a div 64 mod 256 = m"
    unfolding aq using divmod_step(2) [of m 256 "r * 4"] assms by simp
  have "a div 65536 = (a div 64) div 1024" by (simp add: div_mult2_eq [symmetric])
  then show ar: "a div 65536 = r" unfolding aq qr .
  show "a div 65536 mod 256 = 14" unfolding ar r_def using divmod_step(2) [of 14 256 t] by simp
  have "r div 256 = t" unfolding r_def using divmod_step(1) [of 14 256 t] by simp
  moreover have "a div 16777216 = (a div 65536) div 256" by (simp add: div_mult2_eq [symmetric])
  ultimately have "a div 16777216 = t" unfolding ar by simp
  then show "a div 16777216 mod 32 = t" using assms by simp
qed

lemma addr_fields:
  assumes "0 \<le> t" "t < 32" "0 \<le> d" "d < 64" "0 \<le> m" "m < 256"
  shows "id_device_type (addr t d m) = t"
    and "id_device_id (addr t d m) = d"
    and "id_api_index (addr t d m) = m"
    and "id_vendor (addr t d m) = 0xE"
    and "msg_id_of (addr t d m) = m"
    and "matches_device t (addr t d m)"
proof -
  note s = addr_sum [OF assms]
  note f = fields_of_sum [OF assms]
  show "id_device_type (addr t d m) = t"
    unfolding id_device_type_def s using f(5) and_low_mod [of _ 5] by (simp add: drop_bit_eq_div)
  show "id_device_id (addr t d m) = d"
    unfolding id_device_id_def s using f(1) and_low_mod [of _ 6] by simp
  show "id_api_index (addr t d m) = m"
    unfolding id_api_index_def s using f(2) and_low_mod [of _ 10] by (simp add: drop_bit_eq_div)
  show "id_vendor (addr t d m) = 0xE"
    unfolding id_vendor_def s using f(4) and_low_mod [of _ 8] by (simp add: drop_bit_eq_div)
  show "msg_id_of (addr t d m) = m"
    unfolding msg_id_of_def s using f(3) and_low_mod [of _ 8] by (simp add: drop_bit_eq_div)
  have r: "drop_bit 16 (addr t d m) = t * 256 + 14"
    unfolding s using f(6) by (simp add: drop_bit_eq_div)
  have "(t * 256 + 14) mod 2 ^ 13 = t * 256 + 14" using assms by simp
  then have "addr t d m AND push_bit 16 (2 ^ 13 - 1) = push_bit 16 (t * 256 + 14)"
    unfolding and_high_mask r by simp
  moreover have "push_bit 24 t OR push_bit 16 14 = push_bit 16 (push_bit 8 t OR (14::int))"
    by (simp only: push_bit_or push_bit_push_bit) simp
  moreover have "push_bit 8 t OR 14 = t * 256 + 14" using push_or_low [of 14 8 t] by simp
  ultimately show "matches_device t (addr t d m)"
    unfolding matches_device_def by simp
qed

text \<open>
  C2. For every device type in 0..31, device id in 0..63 and message id in 0..31, the
  identifier composed by \<open>addr\<close> decomposes by the masks of the layout into the same device
  type, device id and message id (the api index), with vendor \<open>0x0E\<close>; the identifier also
  passes the device-type and vendor match of \<open>decode_msg_generic\<close>, which reads the same
  message id from it. Device type 7, device id 3 and message id 31 give \<open>0x070E07C3\<close>.
\<close>

theorem addr_decomposes:
  assumes "0 \<le> t" "t \<le> 31" "0 \<le> d" "d \<le> 63" "0 \<le> m" "m \<le> 31"
  shows "id_device_type (addr t d m) = t \<and> id_device_id (addr t d m) = d
    \<and> id_api_index (addr t d m) = m \<and> id_vendor (addr t d m) = 0xE
    \<and> matches_device t (addr t d m) \<and> msg_id_of (addr t d m) = m
    \<and> addr 7 3 31 = 0x070E07C3"
proof -
  have b: "0 \<le> t" "t < 32" "0 \<le> d" "d < 64" "0 \<le> m" "m < 256" using assms by simp_all
  have "addr 7 3 31 = 0x070E07C3" by (simp add: addr_def REDUX_CAN_VENDOR_ID_def)
  with addr_fields [OF b] show ?thesis by simp
qed

theorem addr_decomposes_witness:
  "(0::int) \<le> 7 \<and> (7::int) \<le> 31 \<and> (0::int) \<le> 3 \<and> (3::int) \<le> 63 \<and> (0::int) \<le> 31 \<and> (31::int) \<le> 31
   \<and> id_device_type (addr 7 3 31) = 7 \<and> id_device_id (addr 7 3 31) = 3
   \<and> id_api_index (addr 7 3 31) = 31 \<and> id_vendor (addr 7 3 31) = 0xE
   \<and> matches_device 7 (addr 7 3 31) \<and> msg_id_of (addr 7 3 31) = 31"
proof -
  have h: "(0::int) \<le> 7" "(7::int) \<le> 31" "(0::int) \<le> 3" "(3::int) \<le> 63" "(0::int) \<le> 31" "(31::int) \<le> 31"
    by simp_all
  from addr_decomposes [OF h] h show ?thesis by blast
qed

text \<open>For in-range fields the identifier that \<open>to_wrapper\<close> composes without masks is the
  one \<open>addr\<close> composes.\<close>

lemma to_wrapper_id_is_addr:
  assumes "0 \<le> t" "t < 32" "0 \<le> d" "d < 64" "0 \<le> m" "m < 256"
  shows "push_bit 24 t OR push_bit 16 0xe OR push_bit 6 m OR d = addr t d m"
  using addr_sum [OF assms] id_sum [of d m t] assms by simp

section \<open>Integer signals\<close>

lemma utils_mask_eq: "utils_mask w = 2 ^ w - 1"
  by (simp add: utils_mask_def push_bit_eq_mult)

lemma drop_push: "drop_bit n (push_bit n (x::int)) = x"
  by (simp add: drop_bit_eq_div push_bit_eq_mult)

lemma mod_neg_range:
  fixes v :: int
  assumes "- (2 ^ w) \<le> v" "v < 0"
  shows "v mod 2 ^ w = v + 2 ^ w"
proof -
  have "(v + 2 ^ w) mod 2 ^ w = v + 2 ^ w" using assms by (intro mod_pos_pos_trivial) auto
  then show ?thesis by simp
qed

lemma sint_decode_field:
  fixes v :: int
  assumes "0 < w" "- (2 ^ (w - 1)) \<le> v" "v \<le> 2 ^ (w - 1) - 1"
  shows "(if 2 ^ (w - 1) \<le> v mod 2 ^ w then v mod 2 ^ w - 2 ^ w else v mod 2 ^ w) = v"
proof -
  have p: "(2::int) ^ w = 2 * 2 ^ (w - 1)" using assms(1) by (cases w) simp_all
  show ?thesis
  proof (cases "v < 0")
    case True
    then have "v mod 2 ^ w = v + 2 ^ w" using assms p by (intro mod_neg_range) auto
    then show ?thesis using assms p by auto
  next
    case False
    then have "v mod 2 ^ w = v" using assms p by (intro mod_pos_pos_trivial) auto
    then show ?thesis using assms by auto
  qed
qed

text \<open>
  C4, as the code has it. For a \<open>UInt\<close> or \<open>SInt\<close> signal (of width at least 1 when signed)
  with explicit bounds, encoding an integer raises the out-of-bounds \<open>ValueError\<close> exactly
  when the value lies outside \<open>[lo, hi]\<close>, and an in-range value is emitted as
  \<open>value AND (2 ^ w - 1)\<close> at the signal's offset. The emitted field keeps the whole value
  (as itself, or as its \<open>w\<close>-bit two's complement when signed) whenever the declared range
  fits the width; nothing checks that it does.
\<close>

theorem int_bounds_enforced:
  assumes "m = (if sgnd then SInt w (Some lo) (Some hi) dv fnum fden off
                else UInt w (Some lo) (Some hi) dv fnum fden off)"
    and "sgnd \<longrightarrow> 0 < w"
  shows "(encode (Signal offset m opt) name (VInt v) = Inl (ValueError OutOfBounds)
            \<longleftrightarrow> \<not> (lo \<le> v \<and> v \<le> hi))
       \<and> (lo \<le> v \<and> v \<le> hi \<longrightarrow>
            encode (Signal offset m opt) name (VInt v) = Inr (push_bit offset (v AND (2 ^ w - 1))))
       \<and> (lo \<le> v \<and> v \<le> hi
            \<and> (if sgnd then - (2 ^ (w - 1)) \<le> lo \<and> hi \<le> 2 ^ (w - 1) - 1
                else 0 \<le> lo \<and> hi \<le> 2 ^ w - 1) \<longrightarrow>
            (if sgnd \<and> 2 ^ (w - 1) \<le> v AND (2 ^ w - 1) then (v AND (2 ^ w - 1)) - 2 ^ w
             else v AND (2 ^ w - 1)) = v)"
proof (intro conjI impI)
  show "encode (Signal offset m opt) name (VInt v) = Inl (ValueError OutOfBounds)
            \<longleftrightarrow> \<not> (lo \<le> v \<and> v \<le> hi)"
    using assms
    by (auto simp add: unwrap_or_def utils_mask_eq default_sint_min_def default_sint_max_def)
  show "encode (Signal offset m opt) name (VInt v) = Inr (push_bit offset (v AND (2 ^ w - 1)))"
    if "lo \<le> v \<and> v \<le> hi"
    using assms that
    by (auto simp add: unwrap_or_def utils_mask_eq default_sint_min_def default_sint_max_def)
  show "(if sgnd \<and> 2 ^ (w - 1) \<le> v AND (2 ^ w - 1) then (v AND (2 ^ w - 1)) - 2 ^ w
             else v AND (2 ^ w - 1)) = v"
    if h: "lo \<le> v \<and> v \<le> hi
            \<and> (if sgnd then - (2 ^ (w - 1)) \<le> lo \<and> hi \<le> 2 ^ (w - 1) - 1
                else 0 \<le> lo \<and> hi \<le> 2 ^ w - 1)"
  proof (cases sgnd)
    case True
    with h assms(2) have "0 < w" "- (2 ^ (w - 1)) \<le> v" "v \<le> 2 ^ (w - 1) - 1" by auto
    from sint_decode_field [OF this] True show ?thesis
      by (auto simp add: and_low_mod split: if_splits)
  next
    case False
    with h have "0 \<le> v" "v < 2 ^ w" by auto
    then have "v AND (2 ^ w - 1) = v" by (rule and_mask_id)
    with False show ?thesis by simp
  qed
qed

theorem int_bounds_enforced_witness:
  "encode (Signal 8 (SInt 16 (Some (-32768)) (Some 32767) 0 1 256 0) False) ''temperature''
       (VInt 6400) = Inr (push_bit 8 (6400 AND (2 ^ 16 - 1)))
   \<and> encode (Signal 8 (SInt 16 (Some (-32768)) (Some 32767) 0 1 256 0) False) ''temperature''
       (VInt 40000) = Inl (ValueError OutOfBounds)
   \<and> encode (Signal 0 (UInt 8 (Some 0) (Some 63) 0 1 1 0) False) ''can_id'' (VInt 64)
       = Inl (ValueError OutOfBounds)
   \<and> (63 :: int) AND (2 ^ 8 - 1) = 63"
  using
    int_bounds_enforced [of "SInt 16 (Some (-32768)) (Some 32767) 0 1 256 0" True 16 "-32768"
      32767 0 1 256 0 8 False "''temperature''" 6400]
    int_bounds_enforced [of "SInt 16 (Some (-32768)) (Some 32767) 0 1 256 0" True 16 "-32768"
      32767 0 1 256 0 8 False "''temperature''" 40000]
    int_bounds_enforced [of "UInt 8 (Some 0) (Some 63) 0 1 1 0" False 8 0 63 0 1 1 0 0 False
      "''can_id''" 64]
    int_bounds_enforced [of "UInt 8 (Some 0) (Some 63) 0 1 1 0" False 8 0 63 0 1 1 0 0 False
      "''can_id''" 63]
  by simp

text \<open>The claim's last words fail where the declared range is wider than the field: 300
  lies in \<open>[0, 1000]\<close>, no error is raised, and the 8-bit field holds 44.\<close>

theorem int_in_range_truncated:
  "(0 :: int) \<le> 300 \<and> (300 :: int) \<le> 1000
   \<and> encode (Signal 0 (UInt 8 (Some 0) (Some 1000) 0 1 1 0) False) ''x'' (VInt 300) = Inr 44"
  by (simp add: unwrap_or_def utils_mask_def)

text \<open>
  C8, as the code has it. For an \<open>SInt\<close> signal of width \<open>w \<ge> 1\<close> whose declared range (the
  explicit bounds, or the defaults \<open>- 2 ^ (w - 1)\<close> and \<open>2 ^ (w - 1) - 1\<close>) lies within the
  \<open>w\<close>-bit two's-complement range, every integer of the range is encoded without error, and
  decoding that payload, with the signal's offset not beyond \<open>max_idx\<close>, returns it.
\<close>

theorem sint_roundtrip:
  assumes "0 < w"
    and "lo = unwrap_or mn (- (2 ^ (w - 1)))" and "hi = unwrap_or mx (2 ^ (w - 1) - 1)"
    and "- (2 ^ (w - 1)) \<le> lo" and "hi \<le> 2 ^ (w - 1) - 1"
    and "lo \<le> v" and "v \<le> hi"
    and "int offset \<le> max_idx"
  shows "\<exists>p. encode (Signal offset (SInt w mn mx dv fnum fden off) opt) name (VInt v) = Inr p
           \<and> decode (Signal offset (SInt w mn mx dv fnum fden off) opt) p max_idx = Inr (VInt v)"
proof -
  have e: "encode (Signal offset (SInt w mn mx dv fnum fden off) opt) name (VInt v)
      = Inr (push_bit offset (v AND (2 ^ w - 1)))"
    using assms
    by (simp add: default_sint_min_def default_sint_max_def utils_mask_eq)
  have v: "- (2 ^ (w - 1)) \<le> v" "v \<le> 2 ^ (w - 1) - 1" using assms(4-7) by simp_all
  have "decode (Signal offset (SInt w mn mx dv fnum fden off) opt)
          (push_bit offset (v AND (2 ^ w - 1))) max_idx = Inr (VInt v)"
    using assms(1,8) sint_decode_field [OF assms(1) v]
    by (auto simp add: utils_mask_eq drop_push and_low_mod Let_def simp del: push_bit_and
          split: if_splits)
  with e show ?thesis by blast
qed

theorem sint_roundtrip_witness:
  "(0 :: nat) < 16 \<and> (- (2 ^ (16 - 1)) :: int) \<le> - 32768 \<and> (32767 :: int) \<le> 2 ^ (16 - 1) - 1
   \<and> (- 32768 :: int) \<le> - 3 \<and> (- 3 :: int) \<le> 32767 \<and> int 8 \<le> 64
   \<and> (\<exists>p. encode (Signal 8 (SInt 16 (Some (- 32768)) (Some 32767) 0 1 256 0) False)
              ''temperature'' (VInt (- 3)) = Inr p
         \<and> decode (Signal 8 (SInt 16 (Some (- 32768)) (Some 32767) 0 1 256 0) False) p 64
             = Inr (VInt (- 3)))"
  using sint_roundtrip [of 16 "- 32768" "Some (- 32768)" 32767 "Some 32767" "- 3" 8 64
      0 1 256 0 False "''temperature''"]
  by (simp add: unwrap_or_def)

text \<open>The claim fails where the declared range is wider than the field: 300 lies in
  \<open>[-1000, 1000]\<close>, is encoded without error into an 8-bit field, and decodes as 44.\<close>

theorem sint_roundtrip_counterexample:
  "(- 1000 :: int) \<le> 300 \<and> (300 :: int) \<le> 1000
   \<and> encode (Signal 0 (SInt 8 (Some (- 1000)) (Some 1000) 0 1 1 0) False) ''x'' (VInt 300)
       = Inr 44
   \<and> decode (Signal 0 (SInt 8 (Some (- 1000)) (Some 1000) 0 1 1 0) False) 44 64
       = Inr (VInt 44)
   \<and> decode (Signal 0 (SInt 8 (Some (- 1000)) (Some 1000) 0 1 1 0) False) 44 64
       \<noteq> Inr (VInt 300)"
  by (simp add: default_sint_min_def default_sint_max_def unwrap_or_def utils_mask_def)

text \<open>
  C7 at a failing input. A \<open>Bitset\<close> of width 8 at offset 0 is given 256: no error is raised
  and bit 8, outside the field, is set in the result. No integer is rejected.
\<close>

theorem bitset_unchecked:
  "encode (Signal 0 (Bitset 8 0) False) ''faults'' (VInt 256) = Inr 256
   \<and> \<not> (256 :: int) < 2 ^ 8 \<and> bit (256 :: int) 8"
  by (simp add: bit_iff_odd)

lemma bitset_encode_any:
  "encode (Signal offset (Bitset w dv) opt) name (VInt v) = Inr (push_bit offset v)"
  by simp

section \<open>Byte buffers\<close>

lemma length_bytes_of: "length (bytes_of n k) = k"
  by (induction k arbitrary: n) simp_all

lemma bytes_of_zero: "bytes_of 0 k = replicate k 0"
  by (induction k) simp_all

lemma int_from_bytes_bounds: "0 \<le> int_from_bytes b \<and> int_from_bytes b < 256 ^ length b"
proof (induction b)
  case Nil
  show ?case by simp
next
  case (Cons x b)
  have "uint x < 256" using uint_bounded [of x] by simp
  moreover have "0 \<le> uint x" by simp
  moreover have "int_from_bytes b + 1 \<le> 256 ^ length b" using Cons by simp
  then have "256 * (int_from_bytes b + 1) \<le> 256 * 256 ^ length b" by (rule mult_left_mono) simp
  ultimately show ?case using Cons by simp
qed

lemma byte_of_sum: "(word_of_int (uint x + 256 * r) :: byte) = x"
proof -
  have "(256 :: byte) = 0" by simp
  then have "(256 :: byte) * word_of_int r = 0" by (simp only: mult_zero_left)
  then show ?thesis by simp
qed

lemma bytes_of_from_bytes: "bytes_of (int_from_bytes b) (length b + k) = b @ replicate k 0"
proof (induction b)
  case Nil
  show ?case by (simp add: bytes_of_zero)
next
  case (Cons x b)
  have "uint x < 256" using uint_bounded [of x] by simp
  then have "(uint x + 256 * int_from_bytes b) div 256 = int_from_bytes b" by simp
  with Cons show ?case by (simp add: byte_of_sum del: of_int_add of_int_mult)
qed

lemma pow256: "(256::int) ^ n = 2 ^ (8 * n)"
  by (simp add: power_mult)

lemma field_fits_bytes:
  fixes x :: int
  shows "int_to_bytes (x mod 2 ^ w) ((w + 7) div 8) = Inr (bytes_of (x mod 2 ^ w) ((w + 7) div 8))"
proof -
  have "w \<le> 8 * ((w + 7) div 8)" by presburger
  then have "(2::int) ^ w \<le> 2 ^ (8 * ((w + 7) div 8))" by (intro power_increasing) simp_all
  moreover have "x mod 2 ^ w < 2 ^ w" "0 \<le> x mod 2 ^ w" by simp_all
  ultimately have "\<not> (x mod 2 ^ w < 0 \<or> 256 ^ ((w + 7) div 8) \<le> x mod 2 ^ w)"
    unfolding pow256 by linarith
  then show ?thesis unfolding int_to_bytes_def by (simp only: if_False)
qed

text \<open>
  C6, as the code has it. For a \<open>Buffer\<close> signal of width \<open>w\<close>, encode accepts a byte string
  exactly when its length is at most \<open>(w + 7) div 8\<close>, the number of bytes that hold \<open>w\<close>
  bits, and raises the buffer-length \<open>ValueError\<close> exactly when it is longer.
\<close>

theorem buffer_length_bound:
  "((\<exists>p. encode (Signal offset (Buffer w dv) opt) name (VBytes b) = Inr p)
      \<longleftrightarrow> length b \<le> (w + 7) div 8)
   \<and> (encode (Signal offset (Buffer w dv) opt) name (VBytes b) = Inl (ValueError BufferLen)
      \<longleftrightarrow> (w + 7) div 8 < length b)"
  by (auto simp add: Let_def)

theorem buffer_length_bound_witness:
  "(\<exists>p. encode (Signal 8 (Buffer 48 [0, 0, 0, 0, 0, 0]) False) ''value''
           (VBytes [1, 2, 3, 4, 5, 6]) = Inr p)
   \<and> encode (Signal 8 (Buffer 48 [0, 0, 0, 0, 0, 0]) False) ''value''
        (VBytes [1, 2, 3, 4, 5, 6, 7]) = Inl (ValueError BufferLen)"
  using buffer_length_bound [of 8 48 "[0, 0, 0, 0, 0, 0]" False "''value''" "[1, 2, 3, 4, 5, 6]"]
    buffer_length_bound [of 8 48 "[0, 0, 0, 0, 0, 0]" False "''value''" "[1, 2, 3, 4, 5, 6, 7]"]
  by simp

text \<open>The claim's bound is one byte too long for a width that is a multiple of 8: seven
  bytes are within \<open>(48 + 1 + 7) div 8\<close>, the ceiling of \<open>49 / 8\<close>, and the 48-bit buffer
  rejects them.\<close>

theorem buffer_length_bound_counterexample:
  "length [0, 0, 0, 0, 0, 0, 0 :: byte] \<le> (48 + 1 + 7) div 8
   \<and> encode (Signal 8 (Buffer 48 [0, 0, 0, 0, 0, 0]) False) ''value''
        (VBytes [0, 0, 0, 0, 0, 0, 0]) = Inl (ValueError BufferLen)"
  by simp

text \<open>
  C10, as the code has it. For a \<open>Buffer\<close> signal of width \<open>w\<close> whose offset is not beyond
  \<open>max_idx\<close>, decode returns a byte string of exactly \<open>(w + 7) div 8\<close> bytes, whatever the
  payload; and a byte string shorter than that is encoded without error and decodes to
  itself followed by zero bytes up to that length.
\<close>

theorem buffer_decode_length:
  assumes "int offset \<le> max_idx"
  shows "(\<exists>bs. decode (Signal offset (Buffer w dv) opt) d max_idx = Inr (VBytes bs)
              \<and> length bs = (w + 7) div 8)
       \<and> (length b < (w + 7) div 8 \<longrightarrow>
            (\<exists>p. encode (Signal offset (Buffer w dv) opt) name (VBytes b) = Inr p
               \<and> decode (Signal offset (Buffer w dv) opt) p max_idx
                   = Inr (VBytes (b @ replicate ((w + 7) div 8 - length b) 0))))"
proof (intro conjI impI)
  let ?n = "(w + 7) div 8"
  show "\<exists>bs. decode (Signal offset (Buffer w dv) opt) d max_idx = Inr (VBytes bs)
              \<and> length bs = ?n"
    using assms by (simp add: utils_mask_eq and_low_mod field_fits_bytes length_bytes_of)
  assume short: "length b < ?n"
  then have "8 * length b \<le> w" by presburger
  then have "(2::int) ^ (8 * length b) \<le> 2 ^ w" by (intro power_increasing) simp_all
  with int_from_bytes_bounds [of b]
  have "0 \<le> int_from_bytes b" "int_from_bytes b < 2 ^ w" unfolding pow256 by linarith+
  then have m: "int_from_bytes b mod 2 ^ w = int_from_bytes b" by (rule mod_pos_pos_trivial)
  have "bytes_of (int_from_bytes b) ?n = b @ replicate (?n - length b) 0"
    using bytes_of_from_bytes [of b "?n - length b"] short by simp
  then have "decode (Signal offset (Buffer w dv) opt) (push_bit offset (int_from_bytes b)) max_idx
      = Inr (VBytes (b @ replicate (?n - length b) 0))"
    using assms field_fits_bytes [of "int_from_bytes b" w]
    by (simp add: utils_mask_eq and_low_mod drop_push m)
  moreover have "encode (Signal offset (Buffer w dv) opt) name (VBytes b)
      = Inr (push_bit offset (int_from_bytes b))"
    using short by (simp add: Let_def)
  ultimately show "\<exists>p. encode (Signal offset (Buffer w dv) opt) name (VBytes b) = Inr p
               \<and> decode (Signal offset (Buffer w dv) opt) p max_idx
                   = Inr (VBytes (b @ replicate (?n - length b) 0))"
    by blast
qed

theorem buffer_decode_length_witness:
  "int 8 \<le> 64 \<and> length [1, 2, 3 :: byte] < (48 + 7) div 8
   \<and> (\<exists>p. encode (Signal 8 (Buffer 48 [0, 0, 0, 0, 0, 0]) False) ''value'' (VBytes [1, 2, 3]) = Inr p
         \<and> decode (Signal 8 (Buffer 48 [0, 0, 0, 0, 0, 0]) False) p 64
             = Inr (VBytes [1, 2, 3, 0, 0, 0]))"
  using buffer_decode_length [of 8 64 48 "[0, 0, 0, 0, 0, 0]" False 0 "[1, 2, 3]" "''value''"]
  by (simp add: numeral_3_eq_3)

text \<open>The claim's "always" fails at the guard of \<^verbatim>\<open>Signal.decode\<close>: a signal whose offset is
  beyond \<open>max_idx\<close> decodes to \<^verbatim>\<open>None\<close>, whatever the payload.\<close>

theorem buffer_decode_absent:
  "decode (Signal 8 (Buffer 8 [0]) False) 0xFFFF 0 = Inr VNone"
  by simp

section \<open>Float signals\<close>

lemma uint_byte_of_int: "uint (word_of_int n :: byte) = n mod 256"
  by (simp add: uint_word_of_int take_bit_eq_mod)

lemma from_bytes_of:
  assumes "0 \<le> n" "n < 256 ^ k"
  shows "int_from_bytes (bytes_of n k) = n"
  using assms
proof (induction k arbitrary: n)
  case 0
  then show ?case by simp
next
  case (Suc k)
  have "0 \<le> n div 256" using Suc.prems by simp
  moreover have "n div 256 < 256 ^ k" using Suc.prems by (simp add: div_less_iff_less_mult mult.commute)
  ultimately have "int_from_bytes (bytes_of (n div 256) k) = n div 256" by (rule Suc.IH)
  then show ?case by (simp add: uint_byte_of_int)
qed

lemma pack_one: "struct_pack_f 0x3FF0000000000000 = Inr 0x3F800000"
  by (simp add: struct_pack_f_def f_sign_def f_exp_def f_man_def round_half_even_def Let_def
        bit_iff_odd drop_bit_eq_div)

text \<open>
  What the 24-bit float path of the code does with a binary32 pattern \<open>b\<close>: encode keeps
  \<open>b div 2 ^ 8\<close>; decode shifts that field left by 16, not 8, so it raises
  \<^verbatim>\<open>OverflowError\<close> in \<^verbatim>\<open>to_bytes(4, 'little')\<close> as soon as \<open>b\<close> has a bit above bit 23, and
  otherwise unpacks \<open>(b div 2 ^ 8) * 2 ^ 16\<close>.
\<close>

lemma float24_decode_field:
  assumes "int offset \<le> max_idx" "0 \<le> f" "f < 2 ^ 24"
  shows "decode (Signal offset (Float 24 mn mx dv a fnum fden off) opt) (push_bit offset f) max_idx
     = (if f < 2 ^ 16 then Inr (VFloat (struct_unpack_f (f * 2 ^ 16))) else Inl OverflowError)"
proof -
  have m: "f mod 2 ^ 24 = f" using assms by (intro mod_pos_pos_trivial) auto
  have s: "push_bit 8 (push_bit 8 f) = f * 2 ^ 16" by (simp add: push_bit_eq_mult)
  show ?thesis
  proof (cases "f < 2 ^ 16")
    case True
    then have b: "0 \<le> f * 2 ^ 16" "f * 2 ^ 16 < 256 ^ 4" using assms by simp_all
    then have "\<not> (f * 2 ^ 16 < 0 \<or> 256 ^ 4 \<le> f * 2 ^ 16)" by linarith
    then have "int_to_bytes (f * 2 ^ 16) 4 = Inr (bytes_of (f * 2 ^ 16) 4)"
      unfolding int_to_bytes_def by (simp only: if_False)
    moreover have "int_from_bytes (bytes_of (f * 2 ^ 16) 4) = f * 2 ^ 16" using b by (rule from_bytes_of)
    ultimately show ?thesis
      using assms(1) True m and_low_mod [of f 24] s
      by (simp add: utils_mask_eq drop_push del: push_bit_and)
  next
    case False
    then have "f * 2 ^ 16 < 0 \<or> 256 ^ 4 \<le> f * 2 ^ 16" by simp
    then have "int_to_bytes (f * 2 ^ 16) 4 = Inl OverflowError"
      unfolding int_to_bytes_def by (simp only: if_True)
    then show ?thesis
      using assms(1) False m and_low_mod [of f 24] s
      by (simp add: utils_mask_eq drop_push del: push_bit_and)
  qed
qed

text \<open>
  C1 at a failing input. For the width-24 float signal at offset 0 and \<open>v = 1.0\<close>
  (binary64 \<open>0x3FF0000000000000\<close>, binary32 \<open>0x3F800000\<close>), encode gives the 24 bits
  \<open>0x3F8000\<close>, and decoding them raises \<^verbatim>\<open>OverflowError\<close>: the field is shifted left twice
  by 8 and no longer fits four bytes. The claim has \<open>1.0\<close> returned.
\<close>

theorem float24_decode_double_shift:
  "struct_pack_f 0x3FF0000000000000 = Inr 0x3F800000
   \<and> encode (Signal 0 (Float 24 None None 0 True 1 1 0) False) ''x'' (VFloat 0x3FF0000000000000)
       = Inr 0x3F8000
   \<and> decode (Signal 0 (Float 24 None None 0 True 1 1 0) False) 0x3F8000 64 = Inl OverflowError"
  by (simp add: pack_one isfinite_def f_exp_def drop_bit_eq_div utils_mask_def int_to_bytes_def)

text \<open>
  C5 at a failing input. With \<open>min = 0.0\<close> and \<open>max = 10.0\<close>, the finite value \<open>5.0\<close> is
  neither below the minimum nor above the maximum, and encode raises the
  greater-than-maximum \<open>ValueError\<close>: the second check compares with \<^verbatim>\<open>meta.min\<close>.
\<close>

theorem float_max_bound_slip:
  "isfinite 0x4014000000000000
   \<and> \<not> float_lt 0x4014000000000000 0 \<and> \<not> float_gt 0x4014000000000000 0x4024000000000000
   \<and> encode (Signal 0 (Float 32 (Some 0) (Some 0x4024000000000000) 0 False 1 1 0) False) ''x''
        (VFloat 0x4014000000000000) = Inl (ValueError GreaterThanMaximum)"
  by (simp add: isfinite_def isnan_def f_exp_def f_man_def f_key_def f_sign_def float_lt_def
        float_gt_def drop_bit_eq_div bit_iff_odd)

text \<open>The declared maximum is never read: with a minimum present, any two maxima give the
  same result, and a value that differs from the minimum in either direction is refused.\<close>

lemma float_max_ignored:
  "encode (Signal offset (Float w (Some lo) (Some hi) dv a fnum fden off) opt) name v
   = encode (Signal offset (Float w (Some lo) (Some hi') dv a fnum fden off) opt) name v"
  by (cases "py_float v") simp_all

lemma float_only_min_accepted:
  assumes "float_lt x lo \<or> float_gt x lo"
  shows "\<exists>e. encode (Signal offset (Float w (Some lo) (Some hi) dv a fnum fden off) opt) name
               (VFloat x) = Inl e"
  using assms by auto

section \<open>Frames\<close>

lemma to_wrapper_loop_dlc:
  assumes "to_wrapper_loop m hs self l d = Inr (l', d')"
  shows "l' = (if \<exists>(n, h) \<in> set hs.
                   case h of HSignal sig \<Rightarrow> optional sig \<and> getattr self n \<noteq> Inr VNone | _ \<Rightarrow> False
               then max_length m else l)"
  using assms
proof (induction hs arbitrary: l d)
  case Nil
  then show ?case by simp
next
  case (Cons a hs)
  obtain n h where a: "a = (n, h)" by (cases a)
  show ?case
  proof (cases h)
    case HPlain
    with Cons a show ?thesis by simp
  next
    case HOther
    with Cons.prems a show ?thesis by simp
  next
    case (HSignal sig)
    show ?thesis
    proof (cases "getattr self n")
      case (Inl e)
      with Cons.prems a HSignal show ?thesis by simp
    next
      case (Inr v)
      show ?thesis
      proof (cases "optional sig \<and> v = VNone")
        case True
        with Cons a HSignal Inr show ?thesis by simp
      next
        case False
        then obtain x where x: "encode sig n v = Inr x"
          using Cons.prems a HSignal Inr by (cases "encode sig n v") auto
        with False Cons.prems a HSignal Inr
        have "to_wrapper_loop m hs self (if optional sig then max_length m else l) (d OR x)
                = Inr (l', d')" by auto
        from Cons.IH [OF this] False a HSignal Inr show ?thesis by auto
      qed
    qed
  qed
qed

lemma to_wrapper_loop_skips_null:
  "to_wrapper_loop m
     (filter (\<lambda>(n, h). \<not> (case h of HSignal sig \<Rightarrow> optional sig \<and> getattr self n = Inr VNone
                                  | _ \<Rightarrow> False)) hs) self l d
   = to_wrapper_loop m hs self l d"
proof (induction hs arbitrary: l d)
  case Nil
  show ?case by simp
next
  case (Cons a hs)
  obtain n h where a: "a = (n, h)" by (cases a)
  show ?case
  proof (cases h)
    case (HSignal sig)
    show ?thesis
    proof (cases "optional sig \<and> getattr self n = Inr VNone")
      case True
      with Cons a HSignal show ?thesis by simp
    next
      case False
      with Cons a HSignal show ?thesis
        by (cases "getattr self n") (auto split: sum.splits)
    qed
  qed (use Cons a in simp_all)
qed

text \<open>
  C3, as the code has it. Whenever \<open>to_wrapper\<close> produces a frame for a message instance,
  the frame's DLC is the message's \<open>max_length\<close> if some optional signal among the message's
  own signals (its top-level hints) has a value other than \<^verbatim>\<open>None\<close>, and its \<open>min_length\<close> if
  each of them has the value \<^verbatim>\<open>None\<close>; and the message's own optional signals whose value
  is \<^verbatim>\<open>None\<close> contribute nothing: the message class without them gives the same frame.
  The optional sub-signals of a struct are not looked at for the DLC.
\<close>

theorem to_wrapper_dlc:
  assumes "to_wrapper cls self dev_id dev_type = Inr fr"
  shows "dlc fr =
           (if \<exists>(n, h) \<in> set (hints cls).
                 case h of HSignal sig \<Rightarrow> optional sig \<and> getattr self n \<noteq> Inr VNone | _ \<Rightarrow> False
            then max_length (meta cls) else min_length (meta cls))
       \<and> to_wrapper
           (cls\<lparr>hints :=
              filter (\<lambda>(n, h). \<not> (case h of HSignal sig \<Rightarrow> optional sig \<and> getattr self n = Inr VNone
                                           | _ \<Rightarrow> False)) (hints cls)\<rparr>)
           self dev_id dev_type = Inr fr"
proof -
  obtain l d where ld: "to_wrapper_loop (meta cls) (hints cls) self (min_length (meta cls)) 0 = Inr (l, d)"
    and fr: "dlc fr = l"
    using assms unfolding to_wrapper_def Let_def by (auto split: sum.splits prod.splits)
  from to_wrapper_loop_dlc [OF ld] fr have "dlc fr =
           (if \<exists>(n, h) \<in> set (hints cls).
                 case h of HSignal sig \<Rightarrow> optional sig \<and> getattr self n \<noteq> Inr VNone | _ \<Rightarrow> False
            then max_length (meta cls) else min_length (meta cls))" by simp
  moreover have "to_wrapper
           (cls\<lparr>hints :=
              filter (\<lambda>(n, h). \<not> (case h of HSignal sig \<Rightarrow> optional sig \<and> getattr self n = Inr VNone
                                           | _ \<Rightarrow> False)) (hints cls)\<rparr>)
           self dev_id dev_type = to_wrapper cls self dev_id dev_type"
    unfolding to_wrapper_def
    by (cases dev_type) (simp_all add: to_wrapper_loop_skips_null split: sum.splits)
  ultimately show ?thesis using assms by simp
qed

text \<open>The two frames of a \<^verbatim>\<open>SettingCommand\<close> with command 2 sent to device 3: with setting
  index 6 the payload is \<open>0x0602\<close> with DLC 8; without it the payload is \<open>0x02\<close> with DLC 1.\<close>

lemma setting_command_with_index:
  "to_wrapper SettingCommand (VStruct [(''control_flag'', VInt 2), (''setting_index'', VInt 6)])
     3 None
   = Inr \<lparr>timestamp = 0, data = 0x0602, dlc = 8, arb_id = 0x040E0083\<rparr>"
  by (simp add: to_wrapper_def SettingCommand_def)

lemma setting_command_without_index:
  "to_wrapper SettingCommand (VStruct [(''control_flag'', VInt 2), (''setting_index'', VNone)])
     3 None
   = Inr \<lparr>timestamp = 0, data = 0x02, dlc = 1, arb_id = 0x040E0083\<rparr>"
  by (simp add: to_wrapper_def SettingCommand_def)

theorem to_wrapper_dlc_witness:
  "to_wrapper SettingCommand (VStruct [(''control_flag'', VInt 2), (''setting_index'', VInt 6)])
     3 None
     = Inr \<lparr>timestamp = 0, data = 0x0602, dlc = 8, arb_id = 0x040E0083\<rparr>
   \<and> dlc \<lparr>timestamp = 0, data = 0x0602, dlc = 8, arb_id = 0x040E0083\<rparr>
       = max_length (meta SettingCommand)
   \<and> to_wrapper SettingCommand (VStruct [(''control_flag'', VInt 2), (''setting_index'', VNone)])
       3 None
     = Inr \<lparr>timestamp = 0, data = 0x02, dlc = 1, arb_id = 0x040E0083\<rparr>
   \<and> dlc \<lparr>timestamp = 0, data = 0x02, dlc = 1, arb_id = 0x040E0083\<rparr>
       = min_length (meta SettingCommand)
   \<and> to_wrapper
       (SettingCommand\<lparr>hints := [(''control_flag'', HSignal (Signal 0 (Enum 8 0) False))]\<rparr>)
       (VStruct [(''control_flag'', VInt 2), (''setting_index'', VNone)]) 3 None
     = Inr \<lparr>timestamp = 0, data = 0x02, dlc = 1, arb_id = 0x040E0083\<rparr>"
  using to_wrapper_dlc [OF setting_command_with_index]
    to_wrapper_dlc [OF setting_command_without_index]
    setting_command_with_index setting_command_without_index
  by (simp add: SettingCommand_def)

text \<open>The claim's "any optional signal" fails for an optional signal inside a struct: in a
  message of minimum length 1 and maximum length 8, a struct signal that is not optional
  holds an optional sub-signal with the value 6; the sub-signal is packed into the payload
  and the DLC stays 1.\<close>

theorem nested_optional_keeps_min_length:
  "to_wrapper
     \<lparr>meta = \<lparr>device_type = 4, meta_id = 2, min_length = 1, max_length = 8\<rparr>,
      hints = [(''control_flag'', HSignal (Signal 0 (Enum 8 0) False)),
               (''extra'', HSignal (Signal 8
                  (Struct [(''setting_index'', HSignal (Signal 0 (Enum 8 0) True))]) False))]\<rparr>
     (VStruct [(''control_flag'', VInt 2),
               (''extra'', VStruct [(''setting_index'', VInt 6)])])
     3 None
   = Inr \<lparr>timestamp = 0, data = 0x0602, dlc = 1, arb_id = 0x040E0083\<rparr>
   \<and> VInt 6 \<noteq> VNone \<and> (1 :: int) \<noteq> 8"
  by (simp add: to_wrapper_def)

text \<open>At any depth an optional signal whose value is \<^verbatim>\<open>None\<close> encodes to no bits.\<close>

lemma null_optional_encodes_zero:
  "encode (Signal offset m True) name VNone = Inr 0"
  by simp

section \<open>The synthesised enums\<close>

lemma map_of_dict_set: "map_of (dict_set k v d) = (map_of d)(k \<mapsto> v)"
  by (induction d) (auto simp add: fun_eq_iff)

lemma resolve_bases_total:
  assumes "\<forall>b \<in> set bases. \<exists>s. load (base_file b) = Inr s"
  shows "\<exists>dev. resolve_bases load bases upper = Inr dev"
  using assms by (induction bases arbitrary: upper) auto

lemma empty_default_lowering:
  assumes "[] \<notin> fst ` set (enum_values e)" "enum_default_value e = []"
  shows "impl_EnumMeta_from n e None =
      (if n = ''SETTING'' \<or> n = ''SETTING_COMMAND''
       then Inr \<lparr>em_name = n, em_width = enum_bits e, em_default_value = [],
                 em_default_value_idx = 0, em_is_public = enum_is_public e,
                 em_values = fold (\<lambda>(ent_name, ent).
                    dict_set (entry_id ent)
                      \<lparr>ee_name = ent_name, ee_comment = entry_comment ent, ee_index = entry_id ent\<rparr>)
                   (enum_values e) []\<rparr>
       else Inl (ValueError InvalidEnumDefault))"
proof -
  have "map_of (enum_values e) [] = None" using assms(1) by (simp add: map_of_eq_None_iff)
  then show ?thesis unfolding impl_EnumMeta_from_def Let_def using assms(2) by simp
qed

text \<open>
  C9. Whenever the spec file and the files of its bases load, \<open>parse_spec\<close> returns a
  resolved spec whose enum table has, under \<open>SETTING\<close> and \<open>SETTING_COMMAND\<close>, an 8-bit
  public \<open>uint\<close> enum with empty default name whose entries are exactly the name, id and
  comment of every setting, respectively setting command, of the resolved spec, whatever
  enums the loaded specs had. In lowering, an empty default name that names no entry gives
  default index 0 under these two names and is refused under every other name.
\<close>

theorem sentinel_enums:
  assumes "load spec_path = Inr dev_spec"
    and "\<forall>b \<in> set (spec_base dev_spec). \<exists>s. load (base_file b) = Inr s"
  shows "\<exists>dev. parse_spec load spec_path = Inr dev
     \<and> map_of (spec_enums dev) ''SETTING'' =
         Some \<lparr>enum_comment = [], enum_btype = ''uint'', enum_bits = 8, enum_is_public = True,
               enum_default_value = [],
               enum_values = map (\<lambda>(name, stg).
                   (name, \<lparr>entry_id = stg_id stg, entry_comment = stg_comment stg\<rparr>))
                 (spec_settings dev)\<rparr>
     \<and> map_of (spec_enums dev) ''SETTING_COMMAND'' =
         Some \<lparr>enum_comment = [], enum_btype = ''uint'', enum_bits = 8, enum_is_public = True,
               enum_default_value = [],
               enum_values = map (\<lambda>(name, cmd).
                   (name, \<lparr>entry_id = cmd_id cmd, entry_comment = cmd_comment cmd\<rparr>))
                 (spec_setting_commands dev)\<rparr>
     \<and> (\<forall>n e. map_of (spec_enums dev) n = Some e \<and> [] \<notin> fst ` set (enum_values e)
             \<and> enum_default_value e = [] \<longrightarrow>
           (if n = ''SETTING'' \<or> n = ''SETTING_COMMAND''
            then \<exists>m. impl_EnumMeta_from n e None = Inr m \<and> em_default_value m = []
                   \<and> em_default_value_idx m = 0 \<and> em_width m = enum_bits e
                   \<and> em_is_public m = enum_is_public e
            else impl_EnumMeta_from n e None = Inl (ValueError InvalidEnumDefault)))"
proof -
  obtain dev0 where r: "resolve_bases load (spec_base dev_spec) dev_spec = Inr dev0"
    using resolve_bases_total [OF assms(2)] by blast
  let ?dev = "dev0\<lparr>spec_enums :=
                      dict_set ''SETTING_COMMAND'' (setting_command_enum (spec_setting_commands dev0))
                        (dict_set ''SETTING'' (setting_enum (spec_settings dev0))
                           (spec_enums dev0))\<rparr>"
  have p: "parse_spec load spec_path = Inr ?dev"
    unfolding parse_spec_def using assms(1) r by simp
  have a: "map_of (spec_enums ?dev) ''SETTING'' = Some (setting_enum (spec_settings ?dev))"
    by (simp add: map_of_dict_set)
  have b: "map_of (spec_enums ?dev) ''SETTING_COMMAND''
      = Some (setting_command_enum (spec_setting_commands ?dev))"
    by (simp add: map_of_dict_set)
  show ?thesis
    apply (rule exI [of _ ?dev])
    apply (intro conjI)
       apply (rule p)
      apply (use a in \<open>simp add: setting_enum_def\<close>)
     apply (use b in \<open>simp add: setting_command_enum_def\<close>)
    apply (auto simp add: empty_default_lowering)
    done
qed

lemma example_loads:
  "example_load ''canandgyro.toml'' = Inr example_root"
  "\<forall>b \<in> set (spec_base example_root). \<exists>s. example_load (base_file b) = Inr s"
  by (simp_all add: example_load_def example_root_def base_file_def lower_char_def)

lemma example_setting_names:
  assumes "parse_spec example_load ''canandgyro.toml'' = Inr dev"
  shows "map fst (spec_settings dev) = [''CAN_ID'', ''YAW_FRAME_PERIOD'']"
  using assms
  by (auto simp add: parse_spec_def example_load_def example_root_def example_base_def
        base_file_def lower_char_def merge_upper_def dict_update_def)

theorem sentinel_enums_witness:
  "example_load ''canandgyro.toml'' = Inr example_root
   \<and> spec_base example_root = [''CanandDevice'']
   \<and> example_load (base_file ''CanandDevice'') = Inr example_base
   \<and> (\<exists>dev. parse_spec example_load ''canandgyro.toml'' = Inr dev
         \<and> (\<exists>e. map_of (spec_enums dev) ''SETTING'' = Some e \<and> enum_bits e = 8
                \<and> enum_is_public e \<and> enum_default_value e = []
                \<and> map fst (enum_values e) = [''CAN_ID'', ''YAW_FRAME_PERIOD'']
                \<and> (\<exists>m. impl_EnumMeta_from ''SETTING'' e None = Inr m
                       \<and> em_default_value m = [] \<and> em_default_value_idx m = 0)))"
proof -
  from sentinel_enums [OF example_loads]
  obtain dev e where p: "parse_spec example_load ''canandgyro.toml'' = Inr dev"
    and e: "map_of (spec_enums dev) ''SETTING'' = Some e"
    and ev: "e = \<lparr>enum_comment = [], enum_btype = ''uint'', enum_bits = 8, enum_is_public = True,
               enum_default_value = [],
               enum_values = map (\<lambda>(name, stg).
                   (name, \<lparr>entry_id = stg_id stg, entry_comment = stg_comment stg\<rparr>))
                 (spec_settings dev)\<rparr>"
    and low: "\<forall>n e. map_of (spec_enums dev) n = Some e \<and> [] \<notin> fst ` set (enum_values e)
             \<and> enum_default_value e = [] \<longrightarrow>
           (if n = ''SETTING'' \<or> n = ''SETTING_COMMAND''
            then \<exists>m. impl_EnumMeta_from n e None = Inr m \<and> em_default_value m = []
                   \<and> em_default_value_idx m = 0 \<and> em_width m = enum_bits e
                   \<and> em_is_public m = enum_is_public e
            else impl_EnumMeta_from n e None = Inl (ValueError InvalidEnumDefault))"
    by blast
  have names: "map fst (enum_values e) = [''CAN_ID'', ''YAW_FRAME_PERIOD'']"
    using example_setting_names [OF p] unfolding ev by (simp add: case_prod_unfold comp_def)
  then have "[] \<notin> fst ` set (enum_values e)"
    unfolding set_map [symmetric] by simp
  with low e ev have "\<exists>m. impl_EnumMeta_from ''SETTING'' e None = Inr m
                       \<and> em_default_value m = [] \<and> em_default_value_idx m = 0"
    by force
  with p e ev names have "\<exists>dev. parse_spec example_load ''canandgyro.toml'' = Inr dev
         \<and> (\<exists>e. map_of (spec_enums dev) ''SETTING'' = Some e \<and> enum_bits e = 8
                \<and> enum_is_public e \<and> enum_default_value e = []
                \<and> map fst (enum_values e) = [''CAN_ID'', ''YAW_FRAME_PERIOD'']
                \<and> (\<exists>m. impl_EnumMeta_from ''SETTING'' e None = Inr m
                       \<and> em_default_value m = [] \<and> em_default_value_idx m = 0))"
    by (intro exI [of _ dev] conjI exI [of _ e]) simp_all
  moreover have "spec_base example_root = [''CanandDevice'']"
    by (simp add: example_root_def)
  moreover have "example_load (base_file ''CanandDevice'') = Inr example_base"
    by (simp add: example_load_def base_file_def lower_char_def)
  ultimately show ?thesis using example_loads(1) by blast
qed

text \<open>In the resolved example the base's own \<open>SETTING\<close> enum is gone, and \<open>CAN_ID\<close> has id 0
  in the synthesised one.\<close>

lemma example_can_id:
  "(case parse_spec example_load ''canandgyro.toml'' of
      Inl e \<Rightarrow> None
    | Inr dev \<Rightarrow>
        (case map_of (spec_enums dev) ''SETTING'' of
           None \<Rightarrow> None
         | Some e \<Rightarrow> map_option entry_id (map_of (enum_values e) ''CAN_ID'')))
   = Some 0"
  by (simp add: parse_spec_def example_load_def example_root_def example_base_def
        example_setting_def base_file_def lower_char_def merge_upper_def dict_update_def
        setting_enum_def setting_command_enum_def)

end
